theory Spec2Isabelle
  imports Complex_Main
begin

section \<open>JavaScript values as the code uses them\<close>

text \<open>
  Strings are \<^typ>\<open>string\<close>; an absent (\<open>undefined\<close>/\<open>null\<close>) field is \<open>None\<close> where the
  code tells absent from present, and the falsy default (\<open>''''\<close>, \<open>0\<close>, \<open>False\<close>) where it
  only tests truthiness. Timestamps are milliseconds (\<open>new Date(iso).getTime()\<close>,
  \<open>Date.now()\<close>) as \<^typ>\<open>int\<close>; counters read with \<open>|| 0\<close> are \<^typ>\<open>nat\<close>.
\<close>

definition is_ws :: "char \<Rightarrow> bool" where
  "is_ws c = (c \<in> set [CHR 0x09, CHR 0x0A, CHR 0x0B, CHR 0x0C, CHR 0x0D, CHR 0x20])"

text \<open>\<open>String.prototype.trim\<close>, on the ASCII white space.\<close>

definition js_trim :: "string \<Rightarrow> string" where
  "js_trim s = rev (dropWhile is_ws (rev (dropWhile is_ws s)))"

text \<open>\<open>s.includes(pat)\<close>.\<close>

fun str_includes :: "string \<Rightarrow> string \<Rightarrow> bool" where
  "str_includes [] pat = (pat = [])"
| "str_includes (c # cs) pat = (take (length pat) (c # cs) = pat \<or> str_includes cs pat)"

text \<open>\<open>s.replace(/pat/g, rep)\<close> for a literal, non-empty pattern: left to right, no overlaps.\<close>

fun replace_all :: "string \<Rightarrow> string \<Rightarrow> string \<Rightarrow> string" where
  "replace_all pat rep [] = []"
| "replace_all pat rep (c # cs) =
     (if pat \<noteq> [] \<and> take (length pat) (c # cs) = pat
      then rep @ replace_all pat rep (drop (length pat - 1) cs)
      else c # replace_all pat rep cs)"

text \<open>\<open>String.prototype.toLowerCase\<close>, on the ASCII letters.\<close>

definition lower_char :: "char \<Rightarrow> char" where
  "lower_char c =
     (case map_of (zip ''ABCDEFGHIJKLMNOPQRSTUVWXYZ'' ''abcdefghijklmnopqrstuvwxyz'') c of
        Some d \<Rightarrow> d
      | None \<Rightarrow> c)"

definition toLowerCase :: "string \<Rightarrow> string" where
  "toLowerCase s = map lower_char s"

text \<open>\<open>xs.findIndex(P)\<close>; \<open>None\<close> is the \<open>-1\<close> of the source.\<close>

fun findIndex :: "('a \<Rightarrow> bool) \<Rightarrow> 'a list \<Rightarrow> nat option" where
  "findIndex P [] = None"
| "findIndex P (x # xs) = (if P x then Some 0 else map_option Suc (findIndex P xs))"

text \<open>Truthiness of a nullable string, of a nullable number.\<close>

fun truthy_str :: "string option \<Rightarrow> bool" where
  "truthy_str None = False"
| "truthy_str (Some s) = (s \<noteq> [])"

fun truthy_num :: "int option \<Rightarrow> bool" where
  "truthy_num None = False"
| "truthy_num (Some n) = (n \<noteq> 0)"

section \<open>The data model: the collections of \<open>db.data\<close>\<close>

record lead =
  l_id :: int
  l_user_id :: int
  l_email :: string
  first_name :: string
  last_name :: string
  company :: string
  phone :: string
  status :: string
  ai_intent :: "string option"
  ai_reasoning :: string
  last_reply :: string
  last_reply_date :: "int option"
  last_subject :: string
  follow_up_count :: nat
  email_count :: nat
  clarification_count :: nat
  previous_objection_count :: nat
  initial_email_sent :: bool
  initial_email_sent_date :: "int option"
  last_email_sent_date :: "int option"
  auto_send_enabled :: "bool option"
  follow_up_paused :: bool
  ai_paused_by_human :: bool
  enrolled_sequence_id :: "int option"
  sequence_current_step :: int
  sequence_last_sent :: "int option"
  sequence_completed :: "bool option"
  sequence_paused :: bool
  updated_at :: "int option"

record rule =
  delay_days :: int
  delay_unit :: "string option"
  max_attempts :: int
  after_max :: string

record user =
  u_id :: int
  auto_mode_enabled :: bool
  auto_mode_include_objections :: bool
  email_mode :: string
  per_intent_settings :: "(string \<times> rule) list option"
  ai_generations_this_month :: nat
  company_name :: string

record email_settings =
  s_user_id :: int
  s_email :: string
  provider :: string
  access_token :: string
  refresh_token :: string
  token_invalid :: bool
  token_expiry :: "int option"

record ai_draft =
  d_id :: nat
  d_lead_id :: int
  d_user_id :: int
  draft_body :: string
  d_ai_intent :: string
  reply_text :: "string option"
  reply_subject :: "string option"
  d_ab_variant :: "string option"
  d_status :: string
  clarification_needed :: bool
  needs_follow_up :: bool
  d_created_at :: int
  d_sent_at :: "int option"

record ab_result =
  ab_id :: nat
  ab_user_id :: int
  ab_intent :: string
  variant_a_sends :: nat
  variant_a_replies :: nat
  variant_b_sends :: nat
  variant_b_replies :: nat
  winner :: "string option"
  ab_created_at :: int

record email_history_entry =
  h_id :: nat
  h_lead_id :: int
  h_user_id :: int
  email_type :: string
  h_subject :: string
  h_body :: string
  h_ab_variant :: "string option"
  h_sent_at :: int

record email_thread =
  t_id :: nat
  gmail_message_id :: "string option"
  t_lead_id :: int
  t_user_id :: int
  t_from :: string
  t_subject :: "string option"
  t_body :: string
  received_at :: int
  t_ai_intent :: string
  notified :: bool

record email_interaction =
  i_id :: nat
  i_lead_id :: int
  i_user_id :: "int option"
  i_sequence_id :: "int option"
  i_step_number :: "int option"
  direction :: string
  i_ai_intent :: "string option"
  i_subject :: string
  i_body :: string
  message_id :: "string option"
  i_sent_at :: int

record winning_email =
  w_id :: nat
  w_user_id :: int
  w_lead_id :: int
  w_subject :: string
  w_body :: string
  intent_triggered :: string

record appointment =
  ap_lead_id :: int
  ap_user_id :: int
  ap_source :: string
  ap_date :: string
  ap_time :: string

record product_profile =
  p_user_id :: int
  product_name :: string
  product_description :: string
  key_benefits :: string
  unique_selling_points :: string
  call_to_action :: string

record sequence =
  seq_id :: int
  seq_name :: string
  is_active :: bool

record sequence_step =
  st_sequence_id :: int
  step_number :: int
  st_delay_days :: int
  st_delay_unit :: "string option"
  st_subject :: string
  email_template :: string

record db =
  users :: "user list"
  leads :: "lead list"
  email_settings_tbl :: "email_settings list"
  ai_drafts :: "ai_draft list"
  ab_results :: "ab_result list"
  email_history :: "email_history_entry list"
  email_threads :: "email_thread list"
  email_interactions :: "email_interaction list"
  winning_emails :: "winning_email list"
  appointments :: "appointment list"
  product_profiles :: "product_profile list"
  sequences :: "sequence list"
  sequence_steps :: "sequence_step list"

text \<open>
  The store is lowdb's \<open>Low\<close> over a JSON file: \<open>db.data\<close> is the object graph in memory,
  \<open>db.write()\<close> serialises it to the file, and \<open>db.read()\<close> parses the file into a
  fresh graph that replaces \<open>db.data\<close>. So after a \<open>db.read()\<close> every object obtained from
  the old \<open>db.data\<close> is detached: assignments to it no longer reach the store, and
  changes not yet written are gone (\<open>processFollowUps\<close>, lines 5238-5240, says so:
  "generateFollowUpEmail calls db.read() internally which replaces db.data, detaching the
  old lead reference"). The model keeps both graphs; a variable of the source that holds
  an object of \<open>db.data\<close> is an index into the collection while it is attached and a copy
  from the \<open>db.read()\<close> on. \<open>outbox\<close> logs the messages handed to the Gmail API.
\<close>

record sent_mail =
  mail_to :: string
  mail_subject :: string
  mail_body :: string
  mail_lead_id :: int

record world =
  data :: db
  disk :: db
  outbox :: "sent_mail list"

definition db_read :: "world \<Rightarrow> world" where
  "db_read w = w\<lparr>data := disk w\<rparr>"

definition db_write :: "world \<Rightarrow> world" where
  "db_write w = w\<lparr>disk := data w\<rparr>"

section \<open>\<open>sendEmail\<close> (lines 4680-4845)\<close>

text \<open>
  The two calls that leave the process are inputs: \<open>refreshed\<close> is what
  \<open>oauth2Client.refreshAccessToken()\<close> returns (\<open>None\<close> when it throws), \<open>delivered\<close> the
  threading id of a message that \<open>gmail.users.messages.send\<close> accepted (\<open>None\<close> when it
  throws). The result is \<open>None\<close> when \<open>sendEmail\<close> throws; the settings object comes back
  as the function leaves it.
\<close>

record gmail_api =
  refreshed :: "(string \<times> int) option"
  delivered :: "string option"

definition token_expired :: "email_settings \<Rightarrow> int \<Rightarrow> bool" where
  "token_expired settings now = (truthy_num (token_expiry settings) \<and> the (token_expiry settings) < now)"

definition store_tokens :: "email_settings \<Rightarrow> string \<Rightarrow> int \<Rightarrow> world \<Rightarrow> world" where
  "store_tokens settings tok expiry w =
     (let w1 = db_read w in
      case findIndex (\<lambda>s. s_email s = s_email settings) (email_settings_tbl (data w1)) of
        None \<Rightarrow> w1
      | Some k \<Rightarrow>
          db_write (w1\<lparr>data := (data w1)\<lparr>email_settings_tbl :=
            (email_settings_tbl (data w1))[k := (email_settings_tbl (data w1) ! k)
               \<lparr>access_token := tok, token_expiry := Some expiry\<rparr>]\<rparr>\<rparr>))"

definition gmail_send :: "email_settings \<Rightarrow> sent_mail \<Rightarrow> gmail_api \<Rightarrow> world
    \<Rightarrow> string option \<times> email_settings \<times> world" where
  "gmail_send settings mail api w =
     (case delivered api of
        None \<Rightarrow> (None, settings, w)
      | Some mid \<Rightarrow> (Some mid, settings, w\<lparr>outbox := outbox w @ [mail]\<rparr>))"

definition sendEmail :: "email_settings \<Rightarrow> sent_mail \<Rightarrow> int \<Rightarrow> gmail_api \<Rightarrow> world
    \<Rightarrow> string option \<times> email_settings \<times> world" where
  "sendEmail settings mail now api w =
     (if provider settings \<noteq> ''gmail'' then (None, settings, w)
      else if access_token settings = [] \<or> refresh_token settings = [] then (None, settings, w)
      else if token_invalid settings then (None, settings, w)
      else if token_expired settings now then
        (case refreshed api of
           None \<Rightarrow> (None, settings, w)
         | Some (tok, expiry) \<Rightarrow>
             gmail_send (settings\<lparr>access_token := tok, token_expiry := Some expiry\<rparr>) mail api
               (store_tokens settings tok expiry w))
      else gmail_send settings mail api w)"

section \<open>\<open>generateAIResponse\<close> (lines 4496-4653)\<close>

record ai_result =
  r_body :: string
  r_clarification_needed :: bool

definition hasProductInfo :: "product_profile option \<Rightarrow> bool" where
  "hasProductInfo productProfile =
     (case productProfile of
        None \<Rightarrow> False
      | Some p \<Rightarrow>
          js_trim (product_name p) \<noteq> [] \<and> js_trim (product_description p) \<noteq> [] \<and>
          (js_trim (key_benefits p) \<noteq> [] \<or> js_trim (unique_selling_points p) \<noteq> []))"

text \<open>\<open>hasRepeatedObjection\<close> (lines 4453-4482), on the \<open>db.data\<close> of the moment.\<close>

definition hasRepeatedObjection :: "db \<Rightarrow> lead \<Rightarrow> bool" where
  "hasRepeatedObjection d lead =
     (if previous_objection_count lead \<ge> 1 then True
      else if length (filter (\<lambda>i. i_lead_id i = l_id lead \<and> direction i = ''received'' \<and>
                 i_ai_intent i = Some ''OBJECTION'') (email_interactions d)) \<ge> 1 then True
      else if length (filter (\<lambda>x. d_lead_id x = l_id lead \<and> d_ai_intent x = ''OBJECTION'')
                 (ai_drafts d)) \<ge> 1 then True
      else False)"

definition NEEDS_CLARIFICATION :: string where
  "NEEDS_CLARIFICATION = ''[NEEDS_CLARIFICATION]''"

definition clarificationBody :: "lead \<Rightarrow> string" where
  "clarificationBody lead = ''Hi '' @ first_name lead @
     '',\<newline>\<newline>Thank you for your question.\<newline>\<newline>I want to make sure I give you accurate information. Let me confirm the details and get back to you shortly.\<newline>\<newline>Best regards''"

definition holdingBody :: "lead \<Rightarrow> string" where
  "holdingBody lead = ''Hi '' @ first_name lead @
     '',\<newline>\<newline>Thank you for reaching out! That's a great question.\<newline>\<newline>Let me look into this and get back to you with the right information shortly.\<newline>\<newline>Best regards''"

text \<open>The templated replies used when the model call fails (lines 4638-4652).\<close>

definition em_dash :: string where
  "em_dash = [CHR 0xE2, CHR 0x80, CHR 0x94]"

definition fallbackBody :: "lead \<Rightarrow> string \<Rightarrow> product_profile option \<Rightarrow> bool \<Rightarrow> string" where
  "fallbackBody lead intent productProfile isRepeatedObjection =
     (let cta = (case productProfile of
                   None \<Rightarrow> ''book a quick call''
                 | Some p \<Rightarrow> if call_to_action p = [] then ''book a quick call'' else call_to_action p)
      in if intent = ''NOT_NOW'' then
           ''Hi '' @ first_name lead @ '',\<newline>\<newline>No problem at all '' @ em_dash @
           '' I completely understand timing matters. I'll follow up with you when the time is right.\<newline>\<newline>Feel free to reach out whenever you're ready.\<newline>\<newline>Best regards''
         else if intent = ''GHOSTING'' then
           ''Hi '' @ first_name lead @ '',\<newline>\<newline>Thanks for getting back to me! Just wanted to check in '' @ em_dash @
           '' what questions do you have that I can help with?\<newline>\<newline>Best regards''
         else if intent = ''OBJECTION'' then
           (if isRepeatedObjection then
              ''Hi '' @ first_name lead @ '',\<newline>\<newline>I understand '' @ em_dash @
              '' your concern is important. If this is a dealbreaker for you, that's okay. I'm happy to explore alternatives or help you find a better fit.\<newline>\<newline>Let me know how I can help.\<newline>\<newline>Best regards''
            else
              ''Hi '' @ first_name lead @
              '',\<newline>\<newline>I hear your concern. Here's what I think might matter: [brief value point]\<newline>\<newline>What's most important to you in this situation?\<newline>\<newline>Looking forward to your thoughts.\<newline>\<newline>Best regards'')
         else
           ''Hi '' @ first_name lead @ '',\<newline>\<newline>Thank you for getting back to me! I'd love to '' @ cta @
           '' to show you exactly how we can help'' @
           (if company lead = [] then [] else '' '' @ company lead) @
           ''.\<newline>\<newline>When works best for you this week?\<newline>\<newline>Best regards'')"

text \<open>
  The value \<open>generateAIResponse\<close> returns. \<open>llm\<close> is the text of the model's answer
  (\<open>data.content[0].text\<close>), \<open>None\<close> when the call fails or is not \<open>ok\<close>.
\<close>

definition generateAIResponse_result :: "lead \<Rightarrow> string \<Rightarrow> product_profile option \<Rightarrow> bool
    \<Rightarrow> string option \<Rightarrow> ai_result" where
  "generateAIResponse_result lead intent productProfile repeated llm =
     (if \<not> hasProductInfo productProfile \<and> (intent = ''INTERESTED'' \<or> intent = ''OBJECTION'') then
        \<lparr>r_body = clarificationBody lead, r_clarification_needed = True\<rparr>
      else
        let isRepeatedObjection = (intent = ''OBJECTION'' \<and> repeated) in
        case llm of
          Some text \<Rightarrow>
            (let aiBody0 = js_trim text;
                 needsClarification = str_includes aiBody0 NEEDS_CLARIFICATION;
                 aiBody = js_trim (replace_all NEEDS_CLARIFICATION [] aiBody0)
             in if aiBody = [] then
                  \<lparr>r_body = holdingBody lead,
                   r_clarification_needed =
                     (if intent = ''INTERESTED'' \<and> hasProductInfo productProfile then False else True)\<rparr>
                else
                  \<lparr>r_body = aiBody,
                   r_clarification_needed =
                     (if intent = ''INTERESTED'' \<and> hasProductInfo productProfile \<and> needsClarification
                      then False else needsClarification)\<rparr>)
        | None \<Rightarrow>
            \<lparr>r_body = fallbackBody lead intent productProfile isRepeatedObjection,
             r_clarification_needed = False\<rparr>)"

text \<open>
  The function itself: it starts with \<open>await db.read()\<close> and looks the product profile
  up in the fresh \<open>db.data\<close>.
\<close>

definition generateAIResponse :: "lead \<Rightarrow> string \<Rightarrow> string option \<Rightarrow> world \<Rightarrow> ai_result \<times> world" where
  "generateAIResponse lead intent llm w =
     (let w1 = db_read w;
          productProfile = find (\<lambda>p. p_user_id p = l_user_id lead) (product_profiles (data w1))
      in (generateAIResponse_result lead intent productProfile
            (hasRepeatedObjection (data w1) lead) llm, w1))"

section \<open>Reply ingestion: \<open>checkGmailReplies\<close> (lines 3802-4135), \<open>checkEmailReplies\<close> (lines 3421-3665)\<close>

text \<open>
  One inbound message, from the lookup of the lead on. The two handlers run the same
  statements; \<open>path\<close> marks the places where they differ. What comes from outside the
  process is an input: the classification (\<open>analyzeReplyWithAI\<close>), the detected
  appointment, the text of the response model, the Gmail API and the clock.
\<close>

datatype path = Gmail | Imap

record message =
  m_id :: string
  fromEmail :: string
  m_subject :: "string option"
  emailBody :: string

record analysis =
  a_intent :: string
  a_reasoning :: string

record reply_env =
  classified :: analysis
  aptDetected :: "(string \<times> string) option"
  llm_reply :: "string option"
  mail_api :: gmail_api
  e_now :: int

datatype reply_outcome =
  Not_a_lead | Already_processed | No_draft | Stopped_for_follow_up | Auto_sent | Auto_send_failed
  | Draft_saved

definition upd_lead :: "nat \<Rightarrow> (lead \<Rightarrow> lead) \<Rightarrow> db \<Rightarrow> db" where
  "upd_lead i f d = d\<lparr>leads := (leads d)[i := f (leads d ! i)]\<rparr>"

text \<open>The subject as the handler's variable holds it, and \<open>subject || ''\<close>.\<close>

definition subject_of :: "path \<Rightarrow> message \<Rightarrow> string option" where
  "subject_of p msg =
     (case p of
        Gmail \<Rightarrow> Some (if truthy_str (m_subject msg) then the (m_subject msg) else ''(No Subject)'')
      | Imap \<Rightarrow> m_subject msg)"

definition or_empty :: "string option \<Rightarrow> string" where
  "or_empty s = (if truthy_str s then the s else [])"

definition template_str :: "string option \<Rightarrow> string" where
  "template_str s = (case s of None \<Rightarrow> ''undefined'' | Some x \<Rightarrow> x)"

text \<open>Lines 3829-3844 (Gmail) and 3434-3449 (IMAP): the classification reaches the lead.\<close>

definition apply_analysis :: "analysis \<Rightarrow> string \<Rightarrow> string option \<Rightarrow> int \<Rightarrow> lead \<Rightarrow> lead" where
  "apply_analysis a body subject t lead =
     (let prevIntent = ai_intent lead;
          shouldUpdateIntent = \<not> (prevIntent = Some ''INTERESTED'' \<and> a_intent a = ''GHOSTING'');
          lead1 = (if shouldUpdateIntent then
                     (if truthy_str prevIntent \<and> prevIntent \<noteq> Some (a_intent a)
                      then lead\<lparr>follow_up_count := 0\<rparr> else lead)\<lparr>ai_intent := Some (a_intent a)\<rparr>
                   else lead);
          lead2 = lead1\<lparr>ai_reasoning := a_reasoning a, last_reply := body,
                    last_reply_date := Some t,
                    last_subject := (if truthy_str subject then the subject else ''(No Subject)'')\<rparr>
      in lead2\<lparr>status := (if ai_intent lead2 = Some ''INTERESTED'' then ''interested''
                          else if ai_intent lead2 = Some ''DEAD'' then ''dead'' else ''analyzed'')\<rparr>)"

text \<open>Lines 3846-3851: a reply pauses the running sequence (Gmail handler only).\<close>

definition auto_pause :: "lead \<Rightarrow> lead" where
  "auto_pause lead =
     (if truthy_num (enrolled_sequence_id lead) \<and> sequence_completed lead = Some False \<and>
         \<not> sequence_paused lead
      then lead\<lparr>sequence_paused := True\<rparr> else lead)"

text \<open>
  Lines 3853-3885 and 3464-3493: the last email sent to the lead becomes a winning email
  and its variant's reply counter goes up. \<open>lastSent\<close> is the first entry of the lead's
  history sorted by \<open>sent_at\<close>, latest first (the sort is stable).
\<close>

definition lastSent :: "int \<Rightarrow> email_history_entry list \<Rightarrow> email_history_entry option" where
  "lastSent lid hist =
     (case sort_key (\<lambda>h. - h_sent_at h) (filter (\<lambda>h. h_lead_id h = lid) hist) of
        [] \<Rightarrow> None
      | h # _ \<Rightarrow> Some h)"

definition count_reply :: "string \<Rightarrow> ab_result \<Rightarrow> ab_result" where
  "count_reply variant r =
     (if variant = ''A'' then r\<lparr>variant_a_replies := variant_a_replies r + 1\<rparr>
      else r\<lparr>variant_b_replies := variant_b_replies r + 1\<rparr>)"

definition record_winning :: "int \<Rightarrow> lead \<Rightarrow> string \<Rightarrow> db \<Rightarrow> db" where
  "record_winning userId lead new_intent d =
     (if new_intent \<in> set [''INTERESTED'', ''NOT_NOW'', ''OBJECTION''] then
        (case lastSent (l_id lead) (email_history d) of
           None \<Rightarrow> d
         | Some h \<Rightarrow>
            (let userWinning = filter (\<lambda>w. w_user_id w = userId) (winning_emails d);
                 kept = (if length userWinning \<ge> 50
                         then filter (\<lambda>w. w_id w \<noteq> w_id (hd userWinning)) (winning_emails d)
                         else winning_emails d);
                 d1 = d\<lparr>winning_emails := kept @
                        [\<lparr>w_id = length kept + 1, w_user_id = userId, w_lead_id = l_id lead,
                          w_subject = h_subject h, w_body = h_body h,
                          intent_triggered = new_intent\<rparr>]\<rparr>
             in if truthy_str (h_ab_variant h) then
                  (case findIndex (\<lambda>r. ab_user_id r = userId \<and>
                            ab_intent r = (if truthy_str (ai_intent lead) then the (ai_intent lead)
                                           else ''GHOSTING'')) (ab_results d1) of
                     None \<Rightarrow> d1
                   | Some k \<Rightarrow> d1\<lparr>ab_results := (ab_results d1)
                                  [k := count_reply (the (h_ab_variant h)) (ab_results d1 ! k)]\<rparr>)
                else d1))
      else d)"

definition push_thread :: "path \<Rightarrow> int \<Rightarrow> lead \<Rightarrow> message \<Rightarrow> analysis \<Rightarrow> int \<Rightarrow> db \<Rightarrow> db" where
  "push_thread p userId lead msg a t d =
     d\<lparr>email_threads := email_threads d @
        [\<lparr>t_id = length (email_threads d) + 1,
          gmail_message_id = (case p of Gmail \<Rightarrow> Some (m_id msg) | Imap \<Rightarrow> None),
          t_lead_id = l_id lead, t_user_id = userId, t_from = fromEmail msg,
          t_subject = subject_of p msg, t_body = emailBody msg, received_at = t,
          t_ai_intent = a_intent a, notified = False\<rparr>]\<rparr>"

text \<open>
  The first stage: \<open>db.read()\<close>, the lookup of the lead, the duplicate check on the
  Gmail message id, the update of the lead, \<open>db.write()\<close>. The lead is attached to
  \<open>db.data\<close> throughout, so every assignment lands in the collection, at its index.
\<close>

definition find_lead :: "int \<Rightarrow> message \<Rightarrow> db \<Rightarrow> nat option" where
  "find_lead userId msg d =
     findIndex (\<lambda>l. l_user_id l = userId \<and> toLowerCase (l_email l) = toLowerCase (fromEmail msg))
       (leads d)"

definition alreadyProcessed :: "path \<Rightarrow> message \<Rightarrow> db \<Rightarrow> bool" where
  "alreadyProcessed p msg d =
     (p = Gmail \<and> (\<exists>t \<in> set (email_threads d). gmail_message_id t = Some (m_id msg)))"

definition ingest :: "path \<Rightarrow> int \<Rightarrow> nat \<Rightarrow> message \<Rightarrow> reply_env \<Rightarrow> world \<Rightarrow> world" where
  "ingest p userId i msg env w =
     (let a = classified env;
          d1 = upd_lead i (apply_analysis a (emailBody msg) (subject_of p msg) (e_now env)) (data w);
          d2 = (case p of Gmail \<Rightarrow> upd_lead i auto_pause d1 | Imap \<Rightarrow> d1);
          d3 = (case p of
                  Gmail \<Rightarrow> push_thread p userId (leads d2 ! i) msg a (e_now env)
                             (record_winning userId (leads d2 ! i) (a_intent a) d2)
                | Imap \<Rightarrow> record_winning userId (leads d2 ! i) (a_intent a)
                            (push_thread p userId (leads d2 ! i) msg a (e_now env) d2))
      in db_write (w\<lparr>data := d3\<rparr>))"

text \<open>Lines 3903-3951: a detected appointment (Gmail handler only).\<close>

definition detect_appointment :: "int \<Rightarrow> nat \<Rightarrow> reply_env \<Rightarrow> world \<Rightarrow> world" where
  "detect_appointment userId i env w =
     (case aptDetected env of
        None \<Rightarrow> w
      | Some (date, time) \<Rightarrow>
          (let lead = leads (data w) ! i;
               alreadyExists = (\<exists>a \<in> set (appointments (data w)).
                  ap_lead_id a = l_id lead \<and> ap_source a = ''ai_detected'' \<and>
                  ap_date a = date \<and> ap_time a = time)
           in if alreadyExists then w
              else
                let d1 = (data w)\<lparr>appointments := appointments (data w) @
                           [\<lparr>ap_lead_id = l_id lead, ap_user_id = userId,
                             ap_source = ''ai_detected'', ap_date = date, ap_time = time\<rparr>]\<rparr>;
                    d2 = (case findIndex (\<lambda>l. l_id l = l_id lead) (leads d1) of
                            None \<Rightarrow> d1
                          | Some k \<Rightarrow> upd_lead k (\<lambda>l. l\<lparr>status := ''appointment_scheduled'',
                                                       updated_at := Some (e_now env)\<rparr>) d1)
                in db_write (w\<lparr>data := d2\<rparr>)))"

text \<open>
  Lines 3953-3991 and 3497-3525: the candidate reply. \<open>generateAIResponse\<close> runs
  \<open>db.read()\<close>, so from here on the handler's \<open>lead\<close> is a detached copy. A blank body is
  dropped (\<open>draft = null\<close>).
\<close>

definition existingDraft :: "path \<Rightarrow> lead \<Rightarrow> message \<Rightarrow> db \<Rightarrow> ai_draft option" where
  "existingDraft p lead msg d =
     find (\<lambda>x. d_lead_id x = l_id lead \<and> reply_subject x = Some (or_empty (subject_of p msg)) \<and>
               reply_text x = Some (emailBody msg) \<and> d_status x = ''pending'') (ai_drafts d)"

definition count_generation :: "int \<Rightarrow> db \<Rightarrow> db" where
  "count_generation userId d =
     (case findIndex (\<lambda>u. u_id u = userId) (users d) of
        None \<Rightarrow> d
      | Some k \<Rightarrow> d\<lparr>users := (users d)[k := (users d ! k)
           \<lparr>ai_generations_this_month := ai_generations_this_month (users d ! k) + 1\<rparr>]\<rparr>)"

definition candidate :: "path \<Rightarrow> int \<Rightarrow> lead \<Rightarrow> message \<Rightarrow> reply_env \<Rightarrow> world
    \<Rightarrow> (string \<times> bool) option \<times> world" where
  "candidate p userId lead msg env w =
     (case existingDraft p lead msg (data w) of
        Some x \<Rightarrow> (None, w)
      | None \<Rightarrow>
          (let (r, w1) = generateAIResponse lead (a_intent (classified env)) (llm_reply env) w;
               w2 = (case p of Gmail \<Rightarrow> w1\<lparr>data := count_generation userId (data w1)\<rparr> | Imap \<Rightarrow> w1)
           in (if js_trim (r_body r) = [] then None
               else Some (r_body r, r_clarification_needed r), w2)))"

text \<open>\<open>resolveStaleActionRequiredDrafts\<close> (lines 4486-4493).\<close>

definition resolveStaleActionRequiredDrafts :: "int \<Rightarrow> db \<Rightarrow> db" where
  "resolveStaleActionRequiredDrafts leadId d =
     d\<lparr>ai_drafts := map (\<lambda>x. if d_lead_id x = leadId \<and> d_status x = ''pending'' \<and>
                                 (needs_follow_up x \<or> clarification_needed x)
                              then x\<lparr>d_status := ''resolved''\<rparr> else x) (ai_drafts d)\<rparr>"

definition reply_draft :: "int \<Rightarrow> lead \<Rightarrow> path \<Rightarrow> message \<Rightarrow> reply_env \<Rightarrow> string \<Rightarrow> string
    \<Rightarrow> bool \<Rightarrow> bool \<Rightarrow> int option \<Rightarrow> db \<Rightarrow> ai_draft" where
  "reply_draft userId lead p msg env draft st clar follow sent d =
     \<lparr>d_id = length (ai_drafts d) + 1, d_lead_id = l_id lead, d_user_id = userId,
      draft_body = draft, d_ai_intent = a_intent (classified env),
      reply_text = Some (emailBody msg), reply_subject = Some (or_empty (subject_of p msg)),
      d_ab_variant = None, d_status = st, clarification_needed = clar, needs_follow_up = follow,
      d_created_at = e_now env, d_sent_at = sent\<rparr>"

definition push_draft :: "ai_draft \<Rightarrow> db \<Rightarrow> db" where
  "push_draft x d = d\<lparr>ai_drafts := ai_drafts d @ [x]\<rparr>"

definition isAutoMode :: "path \<Rightarrow> int \<Rightarrow> db \<Rightarrow> bool" where
  "isAutoMode p userId d =
     (case find (\<lambda>u. u_id u = userId) (users d) of
        None \<Rightarrow> False
      | Some u \<Rightarrow> (case p of Gmail \<Rightarrow> auto_mode_enabled u
                            | Imap \<Rightarrow> auto_mode_enabled u \<or> email_mode u = ''AUTO''))"

text \<open>
  Lines 3993-4135 and 3527-3665: the dispatch decision. \<open>lead\<close> is the detached copy: the
  assignments to it are returned with it and do not reach \<open>db.data\<close>.
\<close>

definition dispatch :: "path \<Rightarrow> email_settings \<Rightarrow> int \<Rightarrow> lead \<Rightarrow> message \<Rightarrow> reply_env
    \<Rightarrow> string \<Rightarrow> bool \<Rightarrow> world \<Rightarrow> reply_outcome \<times> lead \<times> world" where
  "dispatch p settings userId lead msg env draft draftClarificationNeeded w =
     (let shouldAutoSend = (isAutoMode p userId (data w) \<and> auto_send_enabled lead \<noteq> Some False);
          alreadySentHolding = (clarification_count lead \<ge> 1)
      in if shouldAutoSend \<and> draftClarificationNeeded \<and> alreadySentHolding then
           (Stopped_for_follow_up,
            lead\<lparr>clarification_count := clarification_count lead + 1\<rparr>,
            db_write (w\<lparr>data := push_draft
              (reply_draft userId lead p msg env draft ''pending'' True True None (data w)) (data w)\<rparr>))
         else if shouldAutoSend then
           (case sendEmail settings
                   \<lparr>mail_to = l_email lead, mail_subject = ''Re: '' @ template_str (subject_of p msg),
                    mail_body = draft, mail_lead_id = l_id lead\<rparr> (e_now env) (mail_api env) w of
              (Some mid, settings', w1) \<Rightarrow>
                (let d1 = (data w1)\<lparr>email_interactions := email_interactions (data w1) @
                            [\<lparr>i_id = length (email_interactions (data w1)) + 1,
                              i_lead_id = l_id lead, i_user_id = Some userId, i_sequence_id = None,
                              i_step_number = None, direction = ''sent'', i_ai_intent = None,
                              i_subject = ''Re: '' @ template_str (subject_of p msg),
                              i_body = draft, message_id = Some mid, i_sent_at = e_now env\<rparr>]\<rparr>;
                     lead1 = lead\<lparr>status := ''replied''\<rparr>;
                     lead2 = (case p of Gmail \<Rightarrow> lead1\<lparr>last_email_sent_date := Some (e_now env)\<rparr>
                                      | Imap \<Rightarrow> lead1)
                 in if draftClarificationNeeded then
                      (Auto_sent, lead2\<lparr>clarification_count := clarification_count lead2 + 1\<rparr>,
                       db_write (w1\<lparr>data := push_draft
                         (reply_draft userId lead p msg env draft ''sent'' True True
                            (Some (e_now env)) d1) d1\<rparr>))
                    else
                      (Auto_sent, lead2\<lparr>clarification_count := 0\<rparr>,
                       db_write (w1\<lparr>data := resolveStaleActionRequiredDrafts (l_id lead) d1\<rparr>)))
            | (None, settings', w1) \<Rightarrow>
                (Auto_send_failed, lead,
                 db_write (w1\<lparr>data := push_draft
                   (reply_draft userId lead p msg env draft ''pending'' draftClarificationNeeded
                      False None (data w1)) (data w1)\<rparr>)))
         else
           (let d1 = (if \<not> draftClarificationNeeded
                      then resolveStaleActionRequiredDrafts (l_id lead) (data w) else data w)
            in (Draft_saved, lead,
                db_write (w\<lparr>data := push_draft
                  (reply_draft userId lead p msg env draft ''pending'' draftClarificationNeeded
                     False None d1) d1\<rparr>))))"

text \<open>The handler for one message. It returns its \<open>lead\<close> object as it leaves it.\<close>

definition process_reply :: "path \<Rightarrow> email_settings \<Rightarrow> int \<Rightarrow> message \<Rightarrow> reply_env \<Rightarrow> world
    \<Rightarrow> reply_outcome \<times> lead option \<times> world" where
  "process_reply p settings userId msg env w =
     (let w0 = db_read w in
      case find_lead userId msg (data w0) of
        None \<Rightarrow> (Not_a_lead, None, w0)
      | Some i \<Rightarrow>
          if alreadyProcessed p msg (data w0) then (Already_processed, Some (leads (data w0) ! i), w0)
          else
            let w1 = ingest p userId i msg env w0;
                w2 = (case p of Gmail \<Rightarrow> detect_appointment userId i env w1 | Imap \<Rightarrow> w1);
                lead = leads (data w2) ! i
            in (case candidate p userId lead msg env w2 of
                  (None, w3) \<Rightarrow> (No_draft, Some lead, w3)
                | (Some (draft, clar), w3) \<Rightarrow>
                    (case dispatch p settings userId lead msg env draft clar w3 of
                       (out, lead', w4) \<Rightarrow> (out, Some lead', w4))))"

section \<open>The follow-up cadence scheduler: \<open>processFollowUps\<close> (lines 5092-5309)\<close>

definition defaultRules :: "(string \<times> rule) list" where
  "defaultRules =
     [(''INTERESTED'', \<lparr>delay_days = 1, delay_unit = None, max_attempts = 5, after_max = ''review''\<rparr>),
      (''NOT_NOW'', \<lparr>delay_days = 7, delay_unit = None, max_attempts = 3, after_max = ''GHOSTING''\<rparr>),
      (''OBJECTION'', \<lparr>delay_days = 3, delay_unit = None, max_attempts = 4, after_max = ''review''\<rparr>),
      (''GHOSTING'', \<lparr>delay_days = 5, delay_unit = None, max_attempts = 3, after_max = ''DEAD''\<rparr>),
      (''DEAD'', \<lparr>delay_days = 30, delay_unit = None, max_attempts = 1,
                 after_max = ''closed_by_system''\<rparr>)]"

definition followUpRules :: "user \<Rightarrow> (string \<times> rule) list" where
  "followUpRules u = (case per_intent_settings u of None \<Rightarrow> defaultRules | Some rs \<Rightarrow> rs)"

definition delayMs :: "rule \<Rightarrow> int" where
  "delayMs r = (if delay_unit r = Some ''minutes'' then delay_days r * 60 * 1000
                else delay_days r * 24 * 60 * 60 * 1000)"

text \<open>\<open>lead.ai_intent || 'GHOSTING'\<close>.\<close>

definition governing_intent :: "lead \<Rightarrow> string" where
  "governing_intent lead = (if truthy_str (ai_intent lead) then the (ai_intent lead) else ''GHOSTING'')"

subsection \<open>\<open>generateFollowUpEmail\<close> (lines 5312-5439)\<close>

text \<open>JavaScript's \<open>%\<close> on integers: the sign of the result is the dividend's.\<close>

definition js_rem :: "int \<Rightarrow> int \<Rightarrow> int" where
  "js_rem a b = sgn a * (\<bar>a\<bar> mod \<bar>b\<bar>)"

text \<open>Lines 5337-5346: the style variant, from the parity of the lead id or the winner.\<close>

definition pick_variant :: "lead \<Rightarrow> string \<Rightarrow> int \<Rightarrow> db \<Rightarrow> string" where
  "pick_variant lead label userId d =
     (let abVariant = (if js_rem (l_id lead) 2 = 0 then ''A'' else ''B'') in
      case find (\<lambda>r. ab_user_id r = userId \<and> ab_intent r = label) (ab_results d) of
        None \<Rightarrow> abVariant
      | Some abResult \<Rightarrow> if truthy_str (winner abResult) then the (winner abResult) else abVariant)"

record follow_up =
  fu_body :: string
  fu_variant :: string

definition followUpFallback :: "lead \<Rightarrow> string" where
  "followUpFallback lead = ''Hi '' @ first_name lead @
     '',\<newline>\<newline>Just wanted to follow up on my previous message. Is this still on your radar?\<newline>\<newline>Best regards''"

text \<open>
  \<open>llm\<close> is the text the model answers with, \<open>None\<close> when the call fails: the function
  then returns its fixed fallback, labelled variant A.
\<close>

definition generateFollowUpEmail :: "lead \<Rightarrow> string \<Rightarrow> int \<Rightarrow> string option \<Rightarrow> world
    \<Rightarrow> follow_up \<times> world" where
  "generateFollowUpEmail lead label userId llm w =
     (let w1 = db_read w;
          abVariant = pick_variant lead label userId (data w1)
      in case llm of
           Some answer \<Rightarrow> (\<lparr>fu_body = js_trim answer, fu_variant = abVariant\<rparr>, w1)
         | None \<Rightarrow> (\<lparr>fu_body = followUpFallback lead, fu_variant = ''A''\<rparr>, w1))"

subsection \<open>A/B bookkeeping (lines 5207-5223)\<close>

text \<open>
  A reply rate. The source divides two doubles; for counters below \<open>2^26\<close> two such
  quotients compare as the exact quotients do.
\<close>

definition rate :: "nat \<Rightarrow> nat \<Rightarrow> rat" where
  "rate replies sends = of_nat replies / of_nat sends"

definition count_send :: "string \<Rightarrow> ab_result \<Rightarrow> ab_result" where
  "count_send abVariant r =
     (if abVariant = ''A'' then r\<lparr>variant_a_sends := variant_a_sends r + 1\<rparr>
      else r\<lparr>variant_b_sends := variant_b_sends r + 1\<rparr>)"

definition select_winner :: "ab_result \<Rightarrow> ab_result" where
  "select_winner r =
     (if \<not> truthy_str (winner r) \<and> variant_a_sends r \<ge> 10 \<and> variant_b_sends r \<ge> 10 then
        r\<lparr>winner := Some (if rate (variant_a_replies r) (variant_a_sends r)
                               \<ge> rate (variant_b_replies r) (variant_b_sends r)
                            then ''A'' else ''B'')\<rparr>
      else r)"

definition new_ab_record :: "nat \<Rightarrow> int \<Rightarrow> string \<Rightarrow> int \<Rightarrow> ab_result" where
  "new_ab_record n userId label t =
     \<lparr>ab_id = n, ab_user_id = userId, ab_intent = label, variant_a_sends = 0,
      variant_a_replies = 0, variant_b_sends = 0, variant_b_replies = 0, winner = None,
      ab_created_at = t\<rparr>"

definition track_send :: "int \<Rightarrow> string \<Rightarrow> string \<Rightarrow> int \<Rightarrow> db \<Rightarrow> db" where
  "track_send userId label abVariant t d =
     (let d1 = (case findIndex (\<lambda>r. ab_user_id r = userId \<and> ab_intent r = label) (ab_results d) of
                  Some k \<Rightarrow> d
                | None \<Rightarrow> d\<lparr>ab_results := ab_results d @
                    [new_ab_record (length (ab_results d) + 1) userId label t]\<rparr>);
          k = the (findIndex (\<lambda>r. ab_user_id r = userId \<and> ab_intent r = label) (ab_results d1))
      in d1\<lparr>ab_results := (ab_results d1)
              [k := select_winner (count_send abVariant (ab_results d1 ! k))]\<rparr>)"

subsection \<open>One lead of the sweep (lines 5120-5301)\<close>

text \<open>
  \<open>lead\<close> is the object of \<open>userLeads\<close>: the lead as \<open>db.data\<close> held it when the user's
  leads were filtered. The writes go to \<open>db.data\<close> through \<open>findIndex\<close> on the lead id.
  The model's answers and the Gmail API are inputs, given per lead id.
\<close>

record cadence_env =
  c_now :: int
  c_llm :: "int \<Rightarrow> string option"
  c_api :: "int \<Rightarrow> gmail_api"

datatype cadence_outcome =
  Skipped | Not_due | Paused_live | No_body | Sent | Send_failed | Drafted | Exhausted

text \<open>Lines 5120-5169: the conditions under which the loop moves on to the next lead.\<close>

definition sequence_cooling :: "(string \<times> rule) list \<Rightarrow> lead \<Rightarrow> int \<Rightarrow> bool" where
  "sequence_cooling rules lead t =
     (truthy_num (enrolled_sequence_id lead) \<and> sequence_completed lead = Some True \<and>
      sequence_last_sent lead \<noteq> None \<and>
      (case map_of rules (governing_intent lead) of
         None \<Rightarrow> False
       | Some r \<Rightarrow> t - the (sequence_last_sent lead) < delayMs r))"

definition skipped :: "bool \<Rightarrow> (string \<times> rule) list \<Rightarrow> lead \<Rightarrow> int \<Rightarrow> bool" where
  "skipped autoModeEnabled rules lead t =
     (if \<not> initial_email_sent lead \<and> last_email_sent_date lead = None then True
      else if ai_paused_by_human lead \<and> \<not> autoModeEnabled then True
      else if status lead = ''customer'' \<or> status lead = ''closed_by_system'' then True
      else if follow_up_paused lead then True
      else if truthy_num (enrolled_sequence_id lead) \<and> sequence_completed lead = Some False \<and>
              \<not> sequence_paused lead then True
      else if sequence_cooling rules lead t then True
      else map_of rules (governing_intent lead) = None)"

text \<open>\<open>new Date(lead.last_email_sent_date || lead.initial_email_sent_date)\<close>; \<open>None\<close> is the
  invalid date, whose time compares false with everything.\<close>

definition lastEmailDate :: "lead \<Rightarrow> int option" where
  "lastEmailDate lead =
     (case last_email_sent_date lead of Some t \<Rightarrow> Some t | None \<Rightarrow> initial_email_sent_date lead)"

definition intentAllowedInAuto :: "user \<Rightarrow> string \<Rightarrow> bool" where
  "intentAllowedInAuto u label =
     (label = ''INTERESTED'' \<or> label = ''NOT_NOW'' \<or> label = ''GHOSTING'' \<or>
      (label = ''OBJECTION'' \<and> auto_mode_include_objections u))"

text \<open>Lines 5281-5299: the \<open>after_max\<close> action.\<close>

definition apply_after_max :: "rule \<Rightarrow> int \<Rightarrow> lead \<Rightarrow> lead" where
  "apply_after_max r t l =
     (if after_max r = ''review'' then l\<lparr>status := ''review''\<rparr>
      else if after_max r = ''closed_by_system'' then l\<lparr>status := ''closed_by_system''\<rparr>
      else l\<lparr>ai_intent := Some (after_max r), status := toLowerCase (after_max r)\<rparr>)
     \<lparr>follow_up_count := 0, updated_at := Some t\<rparr>"

definition exhaust :: "rule \<Rightarrow> lead \<Rightarrow> int \<Rightarrow> db \<Rightarrow> db" where
  "exhaust r lead t d =
     (case findIndex (\<lambda>l. l_id l = l_id lead) (leads d) of
        None \<Rightarrow> d
      | Some afterMaxIdx \<Rightarrow> upd_lead afterMaxIdx (apply_after_max r t) d)"

text \<open>Lines 5238-5258: the bookkeeping after an immediate send.\<close>

definition record_send :: "user \<Rightarrow> lead \<Rightarrow> nat \<Rightarrow> string \<Rightarrow> string \<Rightarrow> int \<Rightarrow> db \<Rightarrow> db" where
  "record_send u lead followUpCount followUpBody abVariant t d =
     (let d1 = (case findIndex (\<lambda>l. l_id l = l_id lead) (leads d) of
                  None \<Rightarrow> d
                | Some liveLeadIdx \<Rightarrow>
                    upd_lead liveLeadIdx (\<lambda>l. l\<lparr>follow_up_count := followUpCount + 1,
                        email_count := email_count l + 1, last_email_sent_date := Some t\<rparr>) d)
      in d1\<lparr>email_history := email_history d1 @
           [\<lparr>h_id = length (email_history d1) + 1, h_lead_id = l_id lead, h_user_id = u_id u,
             email_type = ''follow_up'',
             h_subject = ''Following up - '' @
                (if company lead = [] then ''our conversation'' else company lead),
             h_body = followUpBody, h_ab_variant = Some abVariant, h_sent_at = t\<rparr>]\<rparr>)"

definition follow_up_draft :: "user \<Rightarrow> lead \<Rightarrow> string \<Rightarrow> string \<Rightarrow> string \<Rightarrow> int \<Rightarrow> db \<Rightarrow> ai_draft" where
  "follow_up_draft u lead followUpBody label abVariant t d =
     \<lparr>d_id = length (ai_drafts d) + 1, d_lead_id = l_id lead, d_user_id = u_id u,
      draft_body = followUpBody, d_ai_intent = label, reply_text = None, reply_subject = None,
      d_ab_variant = Some abVariant, d_status = ''pending'', clarification_needed = False,
      needs_follow_up = False, d_created_at = t, d_sent_at = None\<rparr>"

definition live_paused :: "lead \<Rightarrow> db \<Rightarrow> bool" where
  "live_paused lead d =
     (case findIndex (\<lambda>l. l_id l = l_id lead) (leads d) of
        None \<Rightarrow> False
      | Some liveLeadIdx \<Rightarrow> follow_up_paused (leads d ! liveLeadIdx))"

text \<open>Lines 5191-5279: generation and dispatch of a follow-up that is due.\<close>

definition follow_up_due :: "user \<Rightarrow> lead \<Rightarrow> string \<Rightarrow> cadence_env \<Rightarrow> email_settings \<times> world
    \<Rightarrow> cadence_outcome \<times> email_settings \<times> world" where
  "follow_up_due u lead label env sw =
     (case sw of (settings, w) \<Rightarrow>
      let followUpCount = follow_up_count lead;
          (result, w1) = generateFollowUpEmail lead label (u_id u) (c_llm env (l_id lead)) w;
          followUpBody = fu_body result;
          abVariant = (if fu_variant result = [] then ''A'' else fu_variant result)
      in if followUpBody = [] then (No_body, settings, w1)
         else
           let d2 = track_send (u_id u) label abVariant (c_now env)
                      (count_generation (u_id u) (data w1));
               w2 = w1\<lparr>data := d2\<rparr>
           in if auto_mode_enabled u \<and> intentAllowedInAuto u label then
                (case sendEmail settings
                        \<lparr>mail_to = l_email lead,
                         mail_subject = ''Following up - '' @
                           (if company lead = [] then ''our conversation'' else company lead),
                         mail_body = followUpBody, mail_lead_id = l_id lead\<rparr>
                        (c_now env) (c_api env (l_id lead)) w2 of
                   (None, settings', w3) \<Rightarrow> (Send_failed, settings', w3)
                 | (Some mid, settings', w3) \<Rightarrow>
                     (Sent, settings',
                      w3\<lparr>data := record_send u lead followUpCount followUpBody abVariant
                                    (c_now env) (data w3)\<rparr>))
              else
                (Drafted, settings,
                 w2\<lparr>data := push_draft
                    (follow_up_draft u lead followUpBody label abVariant (c_now env) d2) d2\<rparr>))"

definition follow_up_lead :: "user \<Rightarrow> lead \<Rightarrow> cadence_env \<Rightarrow> email_settings \<times> world
    \<Rightarrow> cadence_outcome \<times> email_settings \<times> world" where
  "follow_up_lead u lead env sw =
     (case sw of (settings, w) \<Rightarrow>
      let rules = followUpRules u;
          autoModeEnabled = auto_mode_enabled u
      in if skipped autoModeEnabled rules lead (c_now env) then (Skipped, settings, w)
         else
           let label = governing_intent lead;
               r = the (map_of rules label)
           in (case lastEmailDate lead of
                 None \<Rightarrow> (Not_due, settings, w)
               | Some lastEmail \<Rightarrow>
                   if c_now env - lastEmail \<ge> delayMs r then
                     (if int (follow_up_count lead) < max_attempts r then
                        (if live_paused lead (data w) then (Paused_live, settings, w)
                         else follow_up_due u lead label env (settings, w))
                      else (Exhausted, settings, w\<lparr>data := exhaust r lead (c_now env) (data w)\<rparr>))
                   else (Not_due, settings, w)))"

subsection \<open>The sweep\<close>




section \<open>The sequence step scheduler: \<open>processSequenceSteps\<close> (lines 5566-5706)\<close>

record sequence_env =
  q_now :: int
  q_api :: "int \<Rightarrow> gmail_api"

datatype sequence_outcome =
  Sequence_inactive | Marked_complete | Step_not_due | No_gmail | Step_error | Step_failed
  | Step_sent

text \<open>Lines 5580-5585: the leads the sweep looks at.\<close>

definition enrolled :: "lead \<Rightarrow> bool" where
  "enrolled l = (truthy_num (enrolled_sequence_id l) \<and> sequence_completed l = Some False \<and>
                 \<not> sequence_paused l \<and> sequence_last_sent l \<noteq> None)"

text \<open>Lines 5593-5595: the steps of a sequence, by step number (the sort is stable).\<close>

definition steps_of :: "int \<Rightarrow> db \<Rightarrow> sequence_step list" where
  "steps_of seqId d = sort_key step_number (filter (\<lambda>s. st_sequence_id s = seqId) (sequence_steps d))"

text \<open>Lines 5603-5612 and 5681-5691: a sequence whose leads are all completed is switched off.\<close>

definition deactivate_if_done :: "int \<Rightarrow> db \<Rightarrow> db" where
  "deactivate_if_done seqId d =
     (let allEnrolledLeads = filter (\<lambda>l. enrolled_sequence_id l = Some seqId) (leads d);
          allCompleted = (length allEnrolledLeads > 0 \<and>
                          list_all (\<lambda>l. sequence_completed l = Some True) allEnrolledLeads)
      in if allCompleted then
           (case findIndex (\<lambda>s. seq_id s = seqId) (sequences d) of
              None \<Rightarrow> d
            | Some seqIdx \<Rightarrow>
                if is_active (sequences d ! seqIdx)
                then d\<lparr>sequences := (sequences d)[seqIdx := (sequences d ! seqIdx)\<lparr>is_active := False\<rparr>]\<rparr>
                else d)
         else d)"

text \<open>Lines 5598-5616: the cursor is at or past the end.\<close>

definition mark_complete :: "lead \<Rightarrow> int \<Rightarrow> db \<Rightarrow> db" where
  "mark_complete lead seqId d =
     (case findIndex (\<lambda>l. l_id l = l_id lead) (leads d) of
        None \<Rightarrow> d
      | Some idx \<Rightarrow>
          deactivate_if_done seqId (upd_lead idx (\<lambda>l. l\<lparr>sequence_completed := Some True\<rparr>) d))"

text \<open>Lines 5669-5693: the cursor moves on after a send.\<close>

definition advance :: "lead \<Rightarrow> int \<Rightarrow> nat \<Rightarrow> int \<Rightarrow> db \<Rightarrow> db" where
  "advance lead nextStepIndex nsteps t d =
     (case findIndex (\<lambda>l. l_id l = l_id lead) (leads d) of
        None \<Rightarrow> d
      | Some idx \<Rightarrow>
          (let d1 = upd_lead idx (\<lambda>l. l\<lparr>sequence_current_step := nextStepIndex + 1,
                       sequence_last_sent := Some t, last_email_sent_date := Some t\<rparr>) d
           in if nextStepIndex + 1 \<ge> int nsteps then
                deactivate_if_done (the (enrolled_sequence_id lead))
                  (upd_lead idx (\<lambda>l. l\<lparr>sequence_completed := Some True\<rparr>) d1)
              else d1))"

text \<open>Lines 5632-5640: the template variables.\<close>

definition replaceVars :: "lead \<Rightarrow> string \<Rightarrow> string" where
  "replaceVars lead s =
     replace_all ''{{phone}}'' (phone lead)
       (replace_all ''{{email}}'' (l_email lead)
         (replace_all ''{{company}}'' (company lead)
           (replace_all ''{{last_name}}'' (last_name lead)
             (replace_all ''{{first_name}}'' (first_name lead) s))))"

definition step_unit_ms :: "sequence_step \<Rightarrow> int" where
  "step_unit_ms s = (if (if truthy_str (st_delay_unit s) then the (st_delay_unit s) else ''days'') = ''minutes''
                     then 1000 * 60 else 1000 * 60 * 60 * 24)"

text \<open>
  One lead of the sweep (lines 5588-5696). \<open>lead\<close> is the object of \<open>enrolledLeads\<close>. A
  negative cursor reads \<open>steps[-1]\<close>, which is \<open>undefined\<close>: the next property access
  throws and the lead's \<open>catch\<close> logs it. \<open>elapsed < delay_days\<close> is compared after
  multiplying out the unit.
\<close>

definition sequence_lead :: "lead \<Rightarrow> sequence_env \<Rightarrow> world \<Rightarrow> sequence_outcome \<times> world" where
  "sequence_lead lead env w =
     (let seqId = the (enrolled_sequence_id lead) in
      case find (\<lambda>s. seq_id s = seqId) (sequences (data w)) of
        None \<Rightarrow> (Sequence_inactive, w)
      | Some sq \<Rightarrow>
          if \<not> is_active sq then (Sequence_inactive, w)
          else
            let steps = steps_of seqId (data w);
                nextStepIndex = sequence_current_step lead
            in if nextStepIndex \<ge> int (length steps) then
                 (Marked_complete, w\<lparr>data := mark_complete lead seqId (data w)\<rparr>)
               else if nextStepIndex < 0 then (Step_error, w)
               else
                 let nextStep = steps ! nat nextStepIndex;
                     msSinceLastSent = q_now env - the (sequence_last_sent lead)
                 in if msSinceLastSent < st_delay_days nextStep * step_unit_ms nextStep
                    then (Step_not_due, w)
                    else
                      (case find (\<lambda>s. s_user_id s = l_user_id lead) (email_settings_tbl (data w)) of
                         None \<Rightarrow> (No_gmail, w)
                       | Some settings \<Rightarrow>
                           if provider settings \<noteq> ''gmail'' then (No_gmail, w)
                           else
                             let subject = replaceVars lead
                                   (if st_subject nextStep = [] then seq_name sq else st_subject nextStep);
                                 html = replaceVars lead (email_template nextStep)
                             in (case sendEmail settings
                                       \<lparr>mail_to = l_email lead, mail_subject = subject,
                                        mail_body = html, mail_lead_id = l_id lead\<rparr>
                                       (q_now env) (q_api env (l_id lead)) w of
                                  (None, settings', w1) \<Rightarrow> (Step_failed, w1)
                                | (Some mid, settings', w1) \<Rightarrow>
                                    (let d1 = (data w1)\<lparr>email_interactions :=
                                           email_interactions (data w1) @
                                           [\<lparr>i_id = length (email_interactions (data w1)) + 1,
                                             i_lead_id = l_id lead, i_user_id = None,
                                             i_sequence_id = Some seqId,
                                             i_step_number = Some (nextStepIndex + 1),
                                             direction = ''sent'', i_ai_intent = None,
                                             i_subject = subject, i_body = html,
                                             message_id = Some mid, i_sent_at = q_now env\<rparr>]\<rparr>
                                     in (Step_sent,
                                         w1\<lparr>data := advance lead nextStepIndex (length steps)
                                                       (q_now env) d1\<rparr>)))))"

fun sequence_leads :: "lead list \<Rightarrow> sequence_env \<Rightarrow> world \<Rightarrow> sequence_outcome list \<times> world" where
  "sequence_leads [] env w = ([], w)"
| "sequence_leads (lead # rest) env w =
     (case sequence_lead lead env w of
        (out, w') \<Rightarrow> (case sequence_leads rest env w' of (outs, w'') \<Rightarrow> (out # outs, w'')))"

text \<open>\<open>running\<close> is the flag \<open>_sequenceProcessing\<close>: a sweep that finds it set does nothing.\<close>

definition processSequenceSteps :: "bool \<Rightarrow> sequence_env \<Rightarrow> world \<Rightarrow> world" where
  "processSequenceSteps running env w =
     (if running then w
      else
        let w0 = db_read w;
            enrolledLeads = filter enrolled (leads (data w0))
        in db_write (snd (sequence_leads enrolledLeads env w0)))"

section \<open>Notions used in the statements\<close>

text \<open>What the first stage of the reply handler does to the lead it matched.\<close>

definition on_reply :: "path \<Rightarrow> message \<Rightarrow> reply_env \<Rightarrow> lead \<Rightarrow> lead" where
  "on_reply p msg env l =
     (case p of
        Gmail \<Rightarrow> auto_pause (apply_analysis (classified env) (emailBody msg) (subject_of p msg) (e_now env) l)
      | Imap \<Rightarrow> apply_analysis (classified env) (emailBody msg) (subject_of p msg) (e_now env) l)"

section \<open>Sample data\<close>

text \<open>A one-user store, used where a statement is evaluated on concrete input.\<close>

definition lead0 :: lead where
  "lead0 = \<lparr>l_id = 1, l_user_id = 7, l_email = ''Ann@Example.com'', first_name = ''Ann'',
     last_name = ''Lee'', company = ''Acme'', phone = [], status = ''contacted'',
     ai_intent = None, ai_reasoning = [], last_reply = [], last_reply_date = None,
     last_subject = [], follow_up_count = 0, email_count = 1, clarification_count = 0,
     previous_objection_count = 0, initial_email_sent = True,
     initial_email_sent_date = Some 1000, last_email_sent_date = None,
     auto_send_enabled = None, follow_up_paused = False, ai_paused_by_human = False,
     enrolled_sequence_id = None, sequence_current_step = 0, sequence_last_sent = None,
     sequence_completed = None, sequence_paused = False, updated_at = None\<rparr>"

definition user0 :: user where
  "user0 = \<lparr>u_id = 7, auto_mode_enabled = True, auto_mode_include_objections = False,
     email_mode = ''AUTO'', per_intent_settings = None, ai_generations_this_month = 0,
     company_name = ''Acme Sales''\<rparr>"

definition settings0 :: email_settings where
  "settings0 = \<lparr>s_user_id = 7, s_email = ''sales@acme.test'', provider = ''gmail'',
     access_token = ''tok'', refresh_token = ''ref'', token_invalid = False,
     token_expiry = None\<rparr>"

definition profile0 :: product_profile where
  "profile0 = \<lparr>p_user_id = 7, product_name = ''Widget'', product_description = ''A widget'',
     key_benefits = ''Fast'', unique_selling_points = [], call_to_action = []\<rparr>"

definition db0 :: db where
  "db0 = \<lparr>users = [user0], leads = [lead0], email_settings_tbl = [settings0], ai_drafts = [],
     ab_results = [], email_history = [], email_threads = [], email_interactions = [],
     winning_emails = [], appointments = [], product_profiles = [profile0], sequences = [],
     sequence_steps = []\<rparr>"

definition world_of :: "db \<Rightarrow> world" where
  "world_of d = \<lparr>data = d, disk = d, outbox = []\<rparr>"

definition msg0 :: message where
  "msg0 = \<lparr>m_id = ''m1'', fromEmail = ''ann@example.com'', m_subject = Some ''Pricing'',
     emailBody = ''It is too expensive''\<rparr>"

definition api_ok :: gmail_api where
  "api_ok = \<lparr>refreshed = None, delivered = Some ''<1@acme.test>''\<rparr>"

definition reply_env0 :: "string \<Rightarrow> string \<Rightarrow> reply_env" where
  "reply_env0 label answer =
     \<lparr>classified = \<lparr>a_intent = label, a_reasoning = []\<rparr>, aptDetected = None,
      llm_reply = Some answer, mail_api = api_ok, e_now = 5000\<rparr>"

definition db_with :: "lead \<Rightarrow> user \<Rightarrow> db" where
  "db_with l u = db0\<lparr>users := [u], leads := [l]\<rparr>"


definition lead_held :: lead where
  "lead_held = lead0\<lparr>ai_intent := Some ''GHOSTING'', status := ''replied'',
     auto_send_enabled := Some True, clarification_count := 1\<rparr>"

definition lead_followed :: lead where
  "lead_followed = lead0\<lparr>follow_up_count := 2, email_count := 3,
     last_email_sent_date := Some 3000\<rparr>"

definition user_manual :: user where
  "user_manual = user0\<lparr>auto_mode_enabled := False, email_mode := ''MANUAL''\<rparr>"

definition lead_dead :: lead where
  "lead_dead = lead0\<lparr>ai_intent := Some ''DEAD'', status := ''dead''\<rparr>"

definition lead_paused :: lead where
  "lead_paused = lead0\<lparr>follow_up_paused := True\<rparr>"

definition lead_exhausted :: lead where
  "lead_exhausted = lead0\<lparr>ai_intent := Some ''NOT_NOW'', status := ''analyzed'',
     follow_up_count := 3, email_count := 4, last_email_sent_date := Some 2000\<rparr>"

text \<open>Forty days in milliseconds, and a clock that far after the sample timestamps.\<close>

definition forty_days :: int where
  "forty_days = 40 * 24 * 60 * 60 * 1000"

definition cadence_env0 :: "int \<Rightarrow> string option \<Rightarrow> cadence_env" where
  "cadence_env0 t answer = \<lparr>c_now = t, c_llm = (\<lambda>_. answer), c_api = (\<lambda>_. api_ok)\<rparr>"










section \<open>Facts about the string functions\<close>







lemmas string_defs = toLowerCase_def lower_char_def js_trim_def is_ws_def
  NEEDS_CLARIFICATION_def subject_of_def or_empty_def template_str_def

section \<open>The response generator on a blank answer\<close>




section \<open>The reply handler, stage by stage\<close>

lemma findIndex_Some: "findIndex P xs = Some i \<Longrightarrow> i < length xs \<and> P (xs ! i)"
  by (induction xs arbitrary: i) (auto split: if_splits)

lemma nth_upd_field: "(\<And>x. g (f x) = g x) \<Longrightarrow> g ((xs[k := f (xs ! k)]) ! j) = g (xs ! j)"
  by (cases "k < length xs") (auto simp: nth_list_update list_update_beyond)

lemma leads_record_winning [simp]: "leads (record_winning u l n d) = leads d"
  by (simp add: record_winning_def Let_def split: option.splits)

lemma drafts_record_winning [simp]: "ai_drafts (record_winning u l n d) = ai_drafts d"
  by (simp add: record_winning_def Let_def split: option.splits)

lemma leads_push_thread [simp]: "leads (push_thread p u l m a t d) = leads d"
  by (simp add: push_thread_def)

lemma drafts_push_thread [simp]: "ai_drafts (push_thread p u l m a t d) = ai_drafts d"
  by (simp add: push_thread_def)

lemma ingest_leads:
  "leads (data (ingest p userId i msg env w)) =
     (leads (data w))[i := on_reply p msg env (leads (data w) ! i)]"
  by (cases p; cases "i < length (leads (data w))")
     (simp_all add: ingest_def on_reply_def upd_lead_def db_write_def Let_def list_update_beyond)

lemma ingest_synced: "disk (ingest p userId i msg env w) = data (ingest p userId i msg env w)"
  by (simp add: ingest_def db_write_def Let_def)

lemma ingest_drafts: "ai_drafts (data (ingest p userId i msg env w)) = ai_drafts (data w)"
  by (cases p) (simp_all add: ingest_def upd_lead_def db_write_def Let_def)

lemma ingest_outbox: "outbox (ingest p userId i msg env w) = outbox w"
  by (simp add: ingest_def db_write_def Let_def)

lemma detect_appointment_synced:
  "disk w = data w \<Longrightarrow> disk (detect_appointment u i env w) = data (detect_appointment u i env w)"
  by (simp add: detect_appointment_def db_write_def Let_def split: option.splits prod.splits)

lemma detect_appointment_field:
  assumes "\<And>x s t. g (x\<lparr>status := s, updated_at := t\<rparr>) = g x"
  shows "g (leads (data (detect_appointment u i env w)) ! j) = g (leads (data w) ! j)"
  using assms
  by (auto simp add: detect_appointment_def db_write_def upd_lead_def Let_def
      split: option.splits prod.splits intro!: nth_upd_field)

lemma detect_appointment_drafts:
  "ai_drafts (data (detect_appointment u i env w)) = ai_drafts (data w)"
  by (simp add: detect_appointment_def db_write_def upd_lead_def Let_def
      split: option.splits prod.splits)

lemma detect_appointment_outbox: "outbox (detect_appointment u i env w) = outbox w"
  by (simp add: detect_appointment_def db_write_def Let_def split: option.splits prod.splits)

lemma candidate_leads:
  "leads (disk w) = leads (data w) \<Longrightarrow>
   leads (data (snd (candidate p u l msg env w))) = leads (data w) \<and>
   leads (disk (snd (candidate p u l msg env w))) = leads (data w) \<and>
   outbox (snd (candidate p u l msg env w)) = outbox w"
  by (cases p)
     (simp_all add: candidate_def generateAIResponse_def db_read_def count_generation_def Let_def
      split: option.splits prod.splits)

lemma gmail_send_data:
  "gmail_send s m api w = (r, s', w') \<Longrightarrow> data w' = data w \<and> disk w' = disk w"
  by (auto simp add: gmail_send_def split: option.splits)

lemma store_tokens_leads:
  "leads (disk w) = leads (data w) \<Longrightarrow>
   leads (data (store_tokens s tok ex w)) = leads (data w) \<and>
   leads (disk (store_tokens s tok ex w)) = leads (data w) \<and>
   outbox (store_tokens s tok ex w) = outbox w"
  by (simp add: store_tokens_def db_read_def db_write_def Let_def split: option.splits)

lemma sendEmail_leads:
  assumes "sendEmail s m t api w = (r, s', w')" and "leads (disk w) = leads (data w)"
  shows "leads (data w') = leads (data w) \<and> leads (disk w') = leads (data w)"
  using assms store_tokens_leads [OF assms(2)]
  by (auto simp add: sendEmail_def split: if_splits option.splits prod.splits
      dest!: gmail_send_data)

lemma dispatch_leads:
  "leads (disk w) = leads (data w) \<Longrightarrow>
   leads (data (snd (snd (dispatch p s u l msg env dr c w)))) = leads (data w) \<and>
   leads (disk (snd (snd (dispatch p s u l msg env dr c w)))) = leads (data w)"
  by (auto simp add: dispatch_def db_write_def push_draft_def
      resolveStaleActionRequiredDrafts_def Let_def
      split: option.splits prod.splits if_splits dest: sendEmail_leads)

text \<open>
  The whole handler on the lead table: the stored leads are the old ones with the matched
  lead updated by the first stage; the appointment stage may then rewrite \<open>status\<close> and
  \<open>updated_at\<close>. Nothing the dispatch assigns to its \<open>lead\<close> reaches the table.
\<close>

lemma process_reply_leads:
  assumes "find_lead userId msg (disk w) = Some i"
      and "\<not> alreadyProcessed p msg (disk w)"
      and g: "\<And>x s t. g (x\<lparr>status := s, updated_at := t\<rparr>) = g x"
  shows "g (leads (data (snd (snd (process_reply p settings userId msg env w)))) ! j) =
         g ((leads (disk w))[i := on_reply p msg env (leads (disk w) ! i)] ! j)"
    and "leads (disk (snd (snd (process_reply p settings userId msg env w)))) =
         leads (data (snd (snd (process_reply p settings userId msg env w))))"
proof -
  define w0 where "w0 = db_read w"
  define w1 where "w1 = ingest p userId i msg env w0"
  define w2 where "w2 = (case p of Gmail \<Rightarrow> detect_appointment userId i env w1 | Imap \<Rightarrow> w1)"
  define lead where "lead = leads (data w2) ! i"
  obtain c w3 where cand: "candidate p userId lead msg env w2 = (c, w3)"
    by (cases "candidate p userId lead msg env w2")
  have d0: "data w0 = disk w"
    by (simp add: w0_def db_read_def)
  have l1: "leads (data w1) = (leads (disk w))[i := on_reply p msg env (leads (disk w) ! i)]"
    by (simp add: w1_def ingest_leads d0)
  have s1: "disk w1 = data w1"
    by (simp add: w1_def ingest_synced)
  have s2: "disk w2 = data w2"
    using s1 by (cases p) (simp_all add: w2_def detect_appointment_synced)
  have l2: "g (leads (data w2) ! j) = g (leads (data w1) ! j)"
    by (cases p) (simp_all add: w2_def detect_appointment_field [of g, OF g])
  have l3: "leads (data w3) = leads (data w2) \<and> leads (disk w3) = leads (data w2)"
    using candidate_leads [of w2 p userId lead msg env] s2 cand by simp
  have fin: "leads (data (snd (snd (process_reply p settings userId msg env w)))) = leads (data w2)
           \<and> leads (disk (snd (snd (process_reply p settings userId msg env w)))) = leads (data w2)"
  proof (cases c)
    case None
    have "process_reply p settings userId msg env w = (No_draft, Some lead, w3)"
      using assms(1,2) cand None
      by (cases p) (simp_all add: process_reply_def Let_def lead_def w2_def w1_def w0_def db_read_def)
    then show ?thesis
      using l3 by simp
  next
    case (Some dc)
    obtain draft clar where dc: "dc = (draft, clar)" by (cases dc)
    obtain out lead' w4 where
      disp: "dispatch p settings userId lead msg env draft clar w3 = (out, lead', w4)"
      by (cases "dispatch p settings userId lead msg env draft clar w3")
    have run: "process_reply p settings userId msg env w = (out, Some lead', w4)"
      using assms(1,2) cand Some dc disp
      by (cases p) (simp_all add: process_reply_def Let_def lead_def w2_def w1_def w0_def db_read_def)
    from l3 have "leads (disk w3) = leads (data w3)" by simp
    from dispatch_leads [OF this, of p settings userId lead msg env draft clar] l3 disp
    show ?thesis
      by (simp add: run)
  qed
  show "g (leads (data (snd (snd (process_reply p settings userId msg env w)))) ! j) =
         g ((leads (disk w))[i := on_reply p msg env (leads (disk w) ! i)] ! j)"
    using fin l2 l1 by simp
  show "leads (disk (snd (snd (process_reply p settings userId msg env w)))) =
         leads (data (snd (snd (process_reply p settings userId msg env w))))"
    using fin by simp
qed

lemma process_reply_duplicate:
  assumes "find_lead userId msg (disk w) = Some i" and "alreadyProcessed p msg (disk w)"
  shows "snd (snd (process_reply p settings userId msg env w)) = db_read w"
  using assms by (simp add: process_reply_def Let_def db_read_def)

lemma on_reply_clarification_count [simp]:
  "clarification_count (on_reply p msg env l) = clarification_count l"
  by (cases p) (simp_all add: on_reply_def apply_analysis_def auto_pause_def Let_def)




lemmas handler_defs = process_reply_def db_read_def db_write_def find_lead_def
  alreadyProcessed_def ingest_def detect_appointment_def candidate_def dispatch_def upd_lead_def
  apply_analysis_def auto_pause_def record_winning_def push_thread_def lastSent_def
  existingDraft_def generateAIResponse_def generateAIResponse_result_def hasProductInfo_def
  hasRepeatedObjection_def count_generation_def isAutoMode_def sendEmail_def gmail_send_def
  token_expired_def reply_draft_def push_draft_def resolveStaleActionRequiredDrafts_def


section \<open>INTERESTED is sticky against GHOSTING\<close>



section \<open>An OBJECTION reply under auto mode\<close>


section \<open>A second unanswered question under auto mode\<close>

text \<open>
  What the stop branch of the dispatch does (lines 3999-4025, 3531-3557): nothing is sent,
  the candidate is stored as a pending draft with \<open>needs_follow_up\<close>, and the counter goes
  up on the handler's \<open>lead\<close> object.
\<close>

lemma dispatch_stops:
  assumes "isAutoMode p userId (data w)" and "auto_send_enabled lead \<noteq> Some False"
      and "clarification_count lead \<ge> 1"
  shows "dispatch p settings userId lead msg env draft True w =
           (Stopped_for_follow_up, lead\<lparr>clarification_count := clarification_count lead + 1\<rparr>,
            db_write (w\<lparr>data := push_draft
              (reply_draft userId lead p msg env draft ''pending'' True True None (data w)) (data w)\<rparr>))"
  using assms by (simp add: dispatch_def Let_def)

text \<open>
  That object is detached by then (\<open>generateAIResponse\<close> has run \<open>db.read()\<close>), so no
  run of the handler changes a stored \<open>clarification_count\<close>.
\<close>

lemma process_reply_keeps_clarification_count:
  "clarification_count (leads (data (snd (snd (process_reply p settings userId msg env w)))) ! j)
     = clarification_count (leads (disk w) ! j)"
proof (cases "find_lead userId msg (disk w)")
  case None
  then show ?thesis
    by (simp add: process_reply_def Let_def db_read_def)
next
  case (Some i)
  show ?thesis
  proof (cases "alreadyProcessed p msg (disk w)")
    case True
    from process_reply_duplicate [OF Some True, of settings env] show ?thesis
      by (simp add: db_read_def)
  next
    case False
    from process_reply_leads(1) [OF Some False, of clarification_count settings env j]
    show ?thesis
      by (simp add: nth_upd_field)
  qed
qed

text \<open>
  C3. The lead has received one holding reply (\<open>clarification_count = 1\<close>), the user is in
  auto mode, and the candidate for the new message is flagged \<open>[NEEDS_CLARIFICATION]\<close>.
  The handler sends nothing and stores the candidate as a pending draft with
  \<open>needs_follow_up\<close>. It raises \<open>clarification_count\<close> to 2 on its own \<open>lead\<close> object only:
  the stored lead, in \<open>db.data\<close> and in the file, still has 1.
\<close>

theorem repeated_question_count_not_stored:
  "fst (process_reply Gmail settings0 7 msg0
        (reply_env0 ''GHOSTING'' ''Let me check on that. [NEEDS_CLARIFICATION]'')
        (world_of (db_with lead_held user0))) = Stopped_for_follow_up
   \<and> outbox (snd (snd (process_reply Gmail settings0 7 msg0
        (reply_env0 ''GHOSTING'' ''Let me check on that. [NEEDS_CLARIFICATION]'')
        (world_of (db_with lead_held user0))))) = []
   \<and> map (\<lambda>x. (d_status x, needs_follow_up x)) (ai_drafts (data (snd (snd (process_reply Gmail
        settings0 7 msg0 (reply_env0 ''GHOSTING'' ''Let me check on that. [NEEDS_CLARIFICATION]'')
        (world_of (db_with lead_held user0))))))) = [(''pending'', True)]
   \<and> map_option clarification_count (fst (snd (process_reply Gmail settings0 7 msg0
        (reply_env0 ''GHOSTING'' ''Let me check on that. [NEEDS_CLARIFICATION]'')
        (world_of (db_with lead_held user0))))) = Some 2
   \<and> map clarification_count (leads (data (snd (snd (process_reply Gmail settings0 7 msg0
        (reply_env0 ''GHOSTING'' ''Let me check on that. [NEEDS_CLARIFICATION]'')
        (world_of (db_with lead_held user0))))))) = [1]
   \<and> map clarification_count (leads (disk (snd (snd (process_reply Gmail settings0 7 msg0
        (reply_env0 ''GHOSTING'' ''Let me check on that. [NEEDS_CLARIFICATION]'')
        (world_of (db_with lead_held user0))))))) = [1]"
  by code_simp

section \<open>The cadence scheduler, step by step\<close>

lemma findIndex_upd:
  "(\<And>x. P (f x) = P x) \<Longrightarrow> findIndex P (xs[k := f (xs ! k)]) = findIndex P xs"
proof (induction xs arbitrary: k)
  case Nil
  then show ?case by simp
next
  case (Cons x xs)
  then show ?case by (cases k) simp_all
qed

lemma leads_track_send [simp]: "leads (track_send uid lab v t d) = leads d"
  by (simp add: track_send_def Let_def split: option.splits)

lemma drafts_track_send [simp]: "ai_drafts (track_send uid lab v t d) = ai_drafts d"
  by (simp add: track_send_def Let_def split: option.splits)

lemma leads_count_generation [simp]: "leads (count_generation uid d) = leads d"
  by (simp add: count_generation_def split: option.splits)

lemma drafts_count_generation [simp]: "ai_drafts (count_generation uid d) = ai_drafts d"
  by (simp add: count_generation_def split: option.splits)

lemma generateFollowUpEmail_world [simp]:
  "snd (generateFollowUpEmail lead lab uid llm w) = db_read w"
  by (simp add: generateFollowUpEmail_def Let_def split: option.splits)

lemma follow_up_due_drafted:
  assumes "follow_up_due u lead lab env (settings, w) = (Drafted, settings', w')"
  shows "leads (data w') = leads (disk w) \<and> outbox w' = outbox w \<and> disk w' = disk w \<and>
         settings' = settings \<and>
         (\<exists>x. ai_drafts (data w') = ai_drafts (disk w) @ [x] \<and> d_status x = ''pending'' \<and>
              d_lead_id x = l_id lead \<and> d_ai_intent x = lab)"
  using assms
  by (auto simp: follow_up_due_def generateFollowUpEmail_def Let_def db_read_def push_draft_def
      follow_up_draft_def split: option.splits prod.splits if_splits)

lemma follow_up_due_not_sent:
  assumes "follow_up_due u lead lab env (settings, w) = (out, settings', w')" and "out \<noteq> Sent"
      and "leads (disk w) = leads (data w)"
  shows "leads (data w') = leads (data w)"
  using assms
  by (auto simp: follow_up_due_def generateFollowUpEmail_def Let_def db_read_def push_draft_def
      follow_up_draft_def split: option.splits prod.splits if_splits dest!: sendEmail_leads)

lemma record_send_count:
  assumes "findIndex (\<lambda>l. l_id l = l_id lead) (leads (record_send u lead c b v t d)) = Some k"
  shows "follow_up_count (leads (record_send u lead c b v t d) ! k) = c + 1"
proof (cases "findIndex (\<lambda>l. l_id l = l_id lead) (leads d)")
  case None
  then show ?thesis
    using assms by (simp add: record_send_def Let_def)
next
  case (Some k')
  have upd: "leads (record_send u lead c b v t d) =
      (leads d)[k' := (\<lambda>l. l\<lparr>follow_up_count := c + 1, email_count := email_count l + 1,
                          last_email_sent_date := Some t\<rparr>) (leads d ! k')]"
    using Some by (simp add: record_send_def Let_def upd_lead_def)
  have "findIndex (\<lambda>l. l_id l = l_id lead) (leads (record_send u lead c b v t d)) = Some k'"
    unfolding upd using Some by (subst findIndex_upd) simp_all
  then have "k = k'"
    using assms by simp
  moreover have "k' < length (leads d)"
    using Some by (auto dest: findIndex_Some)
  ultimately show ?thesis
    by (simp add: upd)
qed

lemma follow_up_due_sent:
  assumes "follow_up_due u lead lab env (settings, w) = (Sent, settings', w')"
      and "findIndex (\<lambda>l. l_id l = l_id lead) (leads (data w')) = Some k"
  shows "follow_up_count (leads (data w') ! k) = follow_up_count lead + 1"
proof -
  from assms(1) obtain w3 b v where
    "w' = w3\<lparr>data := record_send u lead (follow_up_count lead) b v (c_now env) (data w3)\<rparr>"
    by (auto simp: follow_up_due_def Let_def split: option.splits prod.splits if_splits)
  then show ?thesis
    using assms(2) record_send_count [of lead u "follow_up_count lead" b v "c_now env" "data w3" k]
    by simp
qed

lemma exhaust_count:
  "follow_up_count (leads (exhaust r lead t d) ! k) \<le> follow_up_count (leads d ! k)"
  by (cases "k < length (leads d)")
     (auto simp: exhaust_def upd_lead_def apply_after_max_def nth_list_update
      split: option.splits dest!: findIndex_Some)



lemmas cadence_defs = follow_up_lead_def follow_up_due_def skipped_def sequence_cooling_def
  followUpRules_def defaultRules_def delayMs_def governing_intent_def lastEmailDate_def
  live_paused_def generateFollowUpEmail_def pick_variant_def js_rem_def track_send_def new_ab_record_def
  count_send_def select_winner_def rate_def intentAllowedInAuto_def exhaust_def
  apply_after_max_def record_send_def follow_up_draft_def followUpFallback_def
  count_generation_def push_draft_def upd_lead_def db_read_def db_write_def sendEmail_def
  gmail_send_def token_expired_def

lemmas cadence_samples = user_manual_def lead_dead_def lead_paused_def lead_exhausted_def
  forty_days_def cadence_env0_def

lemma follow_up_lead_cases:
  assumes "follow_up_lead u lead env (settings, w) = (out, settings', w')"
  shows "(out \<in> {Skipped, Not_due, Paused_live} \<and> w' = w \<and> settings' = settings)
       \<or> (out = Exhausted \<and> settings' = settings \<and>
           (\<exists>r. map_of (followUpRules u) (governing_intent lead) = Some r \<and>
                w' = w\<lparr>data := exhaust r lead (c_now env) (data w)\<rparr>))
       \<or> (out \<notin> {Skipped, Not_due, Paused_live, Exhausted} \<and>
           follow_up_due u lead (governing_intent lead) env (settings, w) = (out, settings', w'))"
proof (cases "skipped (auto_mode_enabled u) (followUpRules u) lead (c_now env)")
  case True
  then show ?thesis using assms by (simp add: follow_up_lead_def Let_def)
next
  case False
  then obtain r where r: "map_of (followUpRules u) (governing_intent lead) = Some r"
    by (auto simp: skipped_def split: if_splits)
  have no: "fst (follow_up_due u lead (governing_intent lead) env (settings, w))
      \<notin> {Skipped, Not_due, Paused_live, Exhausted}"
    by (auto simp: follow_up_due_def Let_def split: option.splits prod.splits if_splits)
  show ?thesis
    using assms False r no
    by (auto simp: follow_up_lead_def Let_def split: option.splits if_splits)
qed


lemma follow_up_lead_due:
  assumes "\<not> skipped (auto_mode_enabled u) (followUpRules u) lead (c_now env)"
      and "map_of (followUpRules u) (governing_intent lead) = Some r"
      and "lastEmailDate lead = Some t" and "delayMs r \<le> c_now env - t"
      and "int (follow_up_count lead) < max_attempts r" and "\<not> live_paused lead (data w)"
  shows "follow_up_lead u lead env (settings, w) =
         follow_up_due u lead (governing_intent lead) env (settings, w)"
  using assms by (simp add: follow_up_lead_def Let_def)



lemma followUpFallback_nonempty [simp]: "followUpFallback lead \<noteq> []"
  by (simp add: followUpFallback_def)

lemma follow_up_due_drafted_iff:
  "fst (follow_up_due u lead lab env (settings, w)) = Drafted \<longleftrightarrow>
     (case c_llm env (l_id lead) of None \<Rightarrow> True | Some a \<Rightarrow> js_trim a \<noteq> []) \<and>
     \<not> (auto_mode_enabled u \<and> intentAllowedInAuto u lab)"
  by (cases "c_llm env (l_id lead)")
     (simp_all add: follow_up_due_def generateFollowUpEmail_def Let_def
      split: prod.splits option.splits)

lemma follow_up_lead_drafted_when:
  assumes "\<not> skipped (auto_mode_enabled u) (followUpRules u) lead (c_now env)"
      and "map_of (followUpRules u) (governing_intent lead) = Some r"
      and "lastEmailDate lead = Some t" and "delayMs r \<le> c_now env - t"
      and "int (follow_up_count lead) < max_attempts r" and "\<not> live_paused lead (data w)"
      and "case c_llm env (l_id lead) of None \<Rightarrow> True | Some a \<Rightarrow> js_trim a \<noteq> []"
      and "\<not> (auto_mode_enabled u \<and> intentAllowedInAuto u (governing_intent lead))"
  shows "fst (follow_up_lead u lead env (settings, w)) = Drafted"
  using follow_up_lead_due [OF assms(1-6), of settings]
    follow_up_due_drafted_iff [of u lead "governing_intent lead" env settings w] assms(7,8)
  by simp


lemma sample_drafted:
  "fst (follow_up_lead user_manual lead0 (cadence_env0 forty_days answer)
         (settings0, world_of (db_with lead0 user_manual))) = Drafted"
  "fst (follow_up_lead user_manual lead_followed (cadence_env0 forty_days answer)
         (settings0, world_of (db_with lead_followed user_manual))) = Drafted"
  "fst (follow_up_lead user_manual lead_dead (cadence_env0 forty_days answer)
         (settings0, world_of (db_with lead_dead user_manual))) = Drafted"
  if "case answer of None \<Rightarrow> True | Some a \<Rightarrow> js_trim a \<noteq> []"
proof -
  have body: "case c_llm (cadence_env0 forty_days answer) i of
                None \<Rightarrow> True | Some a \<Rightarrow> js_trim a \<noteq> []" for i
    using that by (simp add: cadence_env0_def)
  have now: "c_now (cadence_env0 forty_days answer) = forty_days"
    by (simp add: cadence_env0_def)
  show "fst (follow_up_lead user_manual lead0 (cadence_env0 forty_days answer)
         (settings0, world_of (db_with lead0 user_manual))) = Drafted"
    by (rule follow_up_lead_drafted_when
          [where r = "\<lparr>delay_days = 5, delay_unit = None, max_attempts = 3, after_max = ''DEAD''\<rparr>"
             and t = 1000]; (rule body)?; (unfold now)?; code_simp)
  show "fst (follow_up_lead user_manual lead_followed (cadence_env0 forty_days answer)
         (settings0, world_of (db_with lead_followed user_manual))) = Drafted"
    by (rule follow_up_lead_drafted_when
          [where r = "\<lparr>delay_days = 5, delay_unit = None, max_attempts = 3, after_max = ''DEAD''\<rparr>"
             and t = 3000]; (rule body)?; (unfold now)?; code_simp)
  show "fst (follow_up_lead user_manual lead_dead (cadence_env0 forty_days answer)
         (settings0, world_of (db_with lead_dead user_manual))) = Drafted"
    by (rule follow_up_lead_drafted_when
          [where r = "\<lparr>delay_days = 30, delay_unit = None, max_attempts = 1,
                       after_max = ''closed_by_system''\<rparr>"
             and t = 1000]; (rule body)?; (unfold now)?; code_simp)
qed

section \<open>Which leads the cadence scheduler acts on\<close>




section \<open>A follow-up that goes to the draft queue\<close>

text \<open>
  C9. For one lead of the sweep: when the follow-up ends as a pending draft, nothing is
  sent and the lead table of \<open>db.data\<close> is the one of the file, so every lead whose record
  in memory was the stored one keeps its \<open>follow_up_count\<close>, \<open>email_count\<close> and
  \<open>last_email_sent_date\<close>. No outcome but the immediate send raises a \<open>follow_up_count\<close>
  (with the lead table in memory as stored), and the immediate send sets the counter of
  the lead to one more than the sweep read.
\<close>

theorem draft_leaves_counters:
  assumes "follow_up_lead u lead env (settings, w) = (out, settings', w')"
  shows "(out = Drafted \<longrightarrow>
            outbox w' = outbox w \<and> leads (data w') = leads (disk w) \<and>
            (\<forall>k. leads (disk w) ! k = leads (data w) ! k \<longrightarrow>
               follow_up_count (leads (data w') ! k) = follow_up_count (leads (data w) ! k) \<and>
               email_count (leads (data w') ! k) = email_count (leads (data w) ! k) \<and>
               last_email_sent_date (leads (data w') ! k) = last_email_sent_date (leads (data w) ! k)))
       \<and> (leads (disk w) = leads (data w) \<and> out \<noteq> Sent \<longrightarrow>
            (\<forall>k. follow_up_count (leads (data w') ! k) \<le> follow_up_count (leads (data w) ! k)))
       \<and> (out = Sent \<longrightarrow>
            (\<forall>k. findIndex (\<lambda>l. l_id l = l_id lead) (leads (data w')) = Some k \<longrightarrow>
               follow_up_count (leads (data w') ! k) = follow_up_count lead + 1))"
proof -
  note c = follow_up_lead_cases [OF assms]
  have drafted: "outbox w' = outbox w \<and> leads (data w') = leads (disk w)" if "out = Drafted"
    using c that follow_up_due_drafted [of u lead "governing_intent lead" env settings w settings' w']
    by auto
  have kept: "follow_up_count (leads (data w') ! k) \<le> follow_up_count (leads (data w) ! k)"
    if "leads (disk w) = leads (data w)" and "out \<noteq> Sent" for k
  proof -
    consider "w' = w"
      | r where "w' = w\<lparr>data := exhaust r lead (c_now env) (data w)\<rparr>"
      | "follow_up_due u lead (governing_intent lead) env (settings, w) = (out, settings', w')"
      using c by auto
    then show ?thesis
    proof cases
      case 1
      then show ?thesis by simp
    next
      case 2
      then show ?thesis by (simp add: exhaust_count)
    next
      case 3
      from follow_up_due_not_sent [OF 3 that(2) that(1)] show ?thesis by simp
    qed
  qed
  have sent: "follow_up_count (leads (data w') ! k) = follow_up_count lead + 1"
    if "out = Sent" and "findIndex (\<lambda>l. l_id l = l_id lead) (leads (data w')) = Some k" for k
    using c that follow_up_due_sent [of u lead "governing_intent lead" env settings w settings' w' k]
    by auto
  show ?thesis
    using drafted kept sent by auto
qed

theorem draft_leaves_counters_witness:
  "fst (follow_up_lead user_manual lead_followed (cadence_env0 forty_days (Some ''Hi Ann, checking in.''))
        (settings0, world_of (db_with lead_followed user_manual))) = Drafted
   \<and> leads (data (snd (snd (follow_up_lead user_manual lead_followed
        (cadence_env0 forty_days (Some ''Hi Ann, checking in.''))
        (settings0, world_of (db_with lead_followed user_manual))))))
       = [lead_followed]
   \<and> outbox (snd (snd (follow_up_lead user_manual lead_followed
        (cadence_env0 forty_days (Some ''Hi Ann, checking in.''))
        (settings0, world_of (db_with lead_followed user_manual))))) = []"
proof -
  let ?E = "cadence_env0 forty_days (Some ''Hi Ann, checking in.'')"
  let ?W = "world_of (db_with lead_followed user_manual)"
  let ?X = "follow_up_lead user_manual lead_followed ?E (settings0, ?W)"
  have drafted: "fst ?X = Drafted"
    by (rule sample_drafted) (simp add: string_defs)
  have run: "?X = (Drafted, fst (snd ?X), snd (snd ?X))"
    using drafted by (simp add: prod_eq_iff)
  have stored: "leads (disk ?W) = [lead_followed]" "outbox ?W = []"
    by (simp_all add: world_of_def db_with_def)
  from draft_leaves_counters [OF run]
  show ?thesis
    using drafted stored by simp
qed

section \<open>Two sweeps, two drafts\<close>




section \<open>A new governing intent and the attempt counter\<close>





section \<open>The A/B variant of a follow-up\<close>









section \<open>The sequence cursor\<close>

lemma leads_deactivate_if_done [simp]: "leads (deactivate_if_done s d) = leads d"
  by (simp add: deactivate_if_done_def Let_def split: option.splits)








end
